theory Spec2Isabelle
  imports Complex_Main
begin

section \<open>Python values, exceptions and builtins\<close>

text \<open>
  The module \<^verbatim>\<open>app/services/embedding.py\<close> holds two classes, \<^verbatim>\<open>EmbeddingService\<close> and
  \<^verbatim>\<open>ChatService\<close>. Each method is embedded as a function that returns the outcome of the
  call (\<open>Inl\<close> an exception that reaches the caller, \<open>Inr\<close> the returned value) together
  with the trace of the effects it performed, in program order: the requests sent through
  the vendor clients and the log records.

  An exception is an instance of a subclass of \<^verbatim>\<open>Exception\<close>, the class both handlers of
  the module name; it is represented by its class name and by the text \<^verbatim>\<open>str(e)\<close>.
\<close>

datatype py_exception = PyException (exc_class: string) (exc_str: string)

text \<open>
  The values of a context block are typed \<^verbatim>\<open>Any\<close>. The module only ever formats them
  inside an f-string, so a value that is neither a \<^verbatim>\<open>str\<close> nor \<^verbatim>\<open>None\<close> (an \<^verbatim>\<open>int\<close>, a
  \<^verbatim>\<open>float\<close>, an instance of any class) is represented by what \<^verbatim>\<open>format(v, '')\<close> does with
  it: it returns a string or raises.
\<close>

datatype pyval = PyStr string | PyNone | PyObject "py_exception + string"

fun py_format :: "pyval \<Rightarrow> py_exception + string" where
  "py_format (PyStr s) = Inr s"
| "py_format PyNone = Inr ''None''"
| "py_format (PyObject r) = r"

type_synonym block = "string \<rightharpoonup> pyval"

text \<open>\<^verbatim>\<open>d.get(k, dflt)\<close>: the stored value when the key is present (also when that value is
  \<^verbatim>\<open>None\<close>), the default otherwise.\<close>

definition dict_get :: "block \<Rightarrow> string \<Rightarrow> pyval \<Rightarrow> pyval" where
  "dict_get d k dflt = (case d k of None \<Rightarrow> dflt | Some v \<Rightarrow> v)"

text \<open>\<^verbatim>\<open>sep.join(parts)\<close>.\<close>

fun str_join :: "string \<Rightarrow> string list \<Rightarrow> string" where
  "str_join sep [] = []"
| "str_join sep [x] = x"
| "str_join sep (x # y # ys) = x @ sep @ str_join sep (y # ys)"

text \<open>\<^verbatim>\<open>xs[0]\<close>: an empty list raises \<^verbatim>\<open>IndexError\<close>.\<close>

definition IndexError :: py_exception where
  "IndexError = PyException ''IndexError'' ''list index out of range''"

definition py_first :: "'a list \<Rightarrow> py_exception + 'a" where
  "py_first xs = (case xs of [] \<Rightarrow> Inl IndexError | x # _ \<Rightarrow> Inr x)"

text \<open>\<^verbatim>\<open>answer or dflt\<close> on an optional string: \<^verbatim>\<open>None\<close> and \<^verbatim>\<open>''\<close> are falsy.\<close>

fun py_or :: "string option \<Rightarrow> string \<Rightarrow> string" where
  "py_or None dflt = dflt"
| "py_or (Some []) dflt = dflt"
| "py_or (Some (c # cs)) dflt = c # cs"

text \<open>\<^verbatim>\<open>str(n)\<close> for a length, used by the log record of \<^verbatim>\<open>embed_texts\<close>.\<close>

definition digit_char :: "nat \<Rightarrow> char" where
  "digit_char d = ''0123456789'' ! d"

function show_nat :: "nat \<Rightarrow> string" where
  "show_nat n = (if n < 10 then [digit_char n] else show_nat (n div 10) @ [digit_char (n mod 10)])"
  by pat_completeness auto
termination
  by (relation "measure (\<lambda>n. n)") auto

declare show_nat.simps [simp del]

section \<open>Settings, vendor clients and effects\<close>

text \<open>
  Modelled from the spec: the settings object returned by \<^verbatim>\<open>get_settings()\<close> of
  \<^verbatim>\<open>app/core/config.py\<close>, which is not among the sources. The fields are the seven the
  module reads; \<^verbatim>\<open>temperature\<close> is only ever passed on to the vendor.
\<close>

record settings =
  ai_provider :: string
  openai_api_key :: string
  anthropic_api_key :: string
  openai_embed_model :: string
  openai_chat_model :: string
  anthropic_chat_model :: string
  temperature :: real

text \<open>\<^verbatim>\<open>openai.OpenAI(api_key=k)\<close> and \<^verbatim>\<open>anthropic.Anthropic(api_key=k)\<close>.\<close>

datatype client = OpenAI string | Anthropic string

text \<open>Keyword arguments of \<^verbatim>\<open>client.embeddings.create\<close> and the part of its response the
  module reads (\<^verbatim>\<open>response.data\<close>, \<^verbatim>\<open>item.embedding\<close>).\<close>

record embeddings_kwargs =
  emb_model :: string
  emb_input :: "string list"

datatype embedding_item = EmbeddingItem (embedding: "real list")

datatype embeddings_response = EmbeddingsResponse (data: "embedding_item list")

text \<open>A message dictionary \<^verbatim>\<open>{"role": r, "content": c}\<close>.\<close>

record message_param =
  role :: string
  content :: string

text \<open>Keyword arguments of \<^verbatim>\<open>client.chat.completions.create\<close> and the part of its
  response the module reads (\<^verbatim>\<open>response.choices[0].message.content\<close>, an optional string).\<close>

record chat_kwargs =
  chat_model :: string
  chat_messages :: "message_param list"
  chat_temperature :: real
  chat_max_tokens :: int

datatype choice = Choice (message_content: "string option")

datatype chat_completion = ChatCompletion (choices: "choice list")

text \<open>Keyword arguments of \<^verbatim>\<open>client.messages.create\<close> and the part of its response the
  module reads (\<^verbatim>\<open>response.content[0].text\<close>).\<close>

record messages_kwargs =
  msg_model :: string
  msg_max_tokens :: int
  msg_temperature :: real
  msg_system :: string
  msg_messages :: "message_param list"

datatype text_block = TextBlock (block_text: string)

datatype anthropic_message = AnthropicMessage (content_blocks: "text_block list")

text \<open>
  The vendor libraries are outside the module: what a call through a client does is a
  parameter, one function per endpoint, from the client and the keyword arguments to an
  exception or a response.
\<close>

record vendor =
  embeddings_create :: "client \<Rightarrow> embeddings_kwargs \<Rightarrow> py_exception + embeddings_response"
  chat_completions_create :: "client \<Rightarrow> chat_kwargs \<Rightarrow> py_exception + chat_completion"
  messages_create :: "client \<Rightarrow> messages_kwargs \<Rightarrow> py_exception + anthropic_message"

datatype event =
    LogInfo string
  | LogError string
  | EmbeddingsCreate client embeddings_kwargs
  | ChatCompletionsCreate client chat_kwargs
  | MessagesCreate client messages_kwargs

fun is_vendor_call :: "event \<Rightarrow> bool" where
  "is_vendor_call (LogInfo _) = False"
| "is_vendor_call (LogError _) = False"
| "is_vendor_call (EmbeddingsCreate _ _) = True"
| "is_vendor_call (ChatCompletionsCreate _ _) = True"
| "is_vendor_call (MessagesCreate _ _) = True"

section \<open>EmbeddingService\<close>

record EmbeddingService =
  openai_client :: client
  embed_model :: string

definition EmbeddingService_init :: "settings \<Rightarrow> EmbeddingService" where
  "EmbeddingService_init st =
     \<lparr>openai_client = OpenAI (openai_api_key st), embed_model = openai_embed_model st\<rparr>"

definition embed_texts ::
  "vendor \<Rightarrow> EmbeddingService \<Rightarrow> string list \<Rightarrow> (py_exception + real list list) \<times> event list" where
  "embed_texts v self texts =
     (let kw = \<lparr>emb_model = embed_model self, emb_input = texts\<rparr>;
          call = EmbeddingsCreate (openai_client self) kw
      in case embeddings_create v (openai_client self) kw of
           Inr response \<Rightarrow>
             (Inr (map embedding (data response)),
              [call, LogInfo (''Generated embeddings for '' @ show_nat (length texts) @ '' texts'')])
         | Inl e \<Rightarrow>
             (Inl e, [call, LogError (''Failed to generate embeddings: '' @ exc_str e)]))"

definition embed_query ::
  "vendor \<Rightarrow> EmbeddingService \<Rightarrow> string \<Rightarrow> (py_exception + real list) \<times> event list" where
  "embed_query v self query =
     (case embed_texts v self [query] of
        (Inl e, tr) \<Rightarrow> (Inl e, tr)
      | (Inr embeddings, tr) \<Rightarrow> (py_first embeddings, tr))"

section \<open>ChatService\<close>

record ChatService =
  provider :: string
  chat_client :: client
  model :: string

definition ChatService_init :: "settings \<Rightarrow> (py_exception + ChatService) \<times> event list" where
  "ChatService_init st =
     (let p = ai_provider st in
      if p = ''openai'' then
        (Inr \<lparr>provider = p, chat_client = OpenAI (openai_api_key st), model = openai_chat_model st\<rparr>,
         [LogInfo (''Initialized chat service with '' @ p @ '' ('' @ openai_chat_model st @ '')'')])
      else if p = ''anthropic'' then
        (Inr \<lparr>provider = p, chat_client = Anthropic (anthropic_api_key st),
              model = anthropic_chat_model st\<rparr>,
         [LogInfo (''Initialized chat service with '' @ p @ '' ('' @ anthropic_chat_model st @ '')'')])
      else (Inl (PyException ''ValueError'' (''Unsupported AI provider: '' @ p)), []))"

subsection \<open>Prompt construction\<close>

text \<open>The body of the loop over \<^verbatim>\<open>context_blocks\<close>: the two lookups and the f-string, whose
  fields are formatted from left to right.\<close>

definition render_block :: "block \<Rightarrow> py_exception + string" where
  "render_block b =
     (let chunk_id = dict_get b ''chunk_id'' (PyStr ''unknown'');
          text = dict_get b ''text'' (PyStr '''')
      in case py_format chunk_id of
           Inl e \<Rightarrow> Inl e
         | Inr c \<Rightarrow>
             (case py_format text of
                Inl e \<Rightarrow> Inl e
              | Inr t \<Rightarrow> Inr (''['' @ c @ ''] '' @ t)))"

text \<open>The loop, with \<^verbatim>\<open>context_parts\<close> as accumulator; an exception ends it.\<close>

fun render_blocks :: "block list \<Rightarrow> string list \<Rightarrow> py_exception + string list" where
  "render_blocks [] context_parts = Inr context_parts"
| "render_blocks (b # rest) context_parts =
     (case render_block b of
        Inl e \<Rightarrow> Inl e
      | Inr line \<Rightarrow> render_blocks rest (context_parts @ [line]))"

definition build_context :: "block list \<Rightarrow> py_exception + string" where
  "build_context context_blocks =
     (case render_blocks context_blocks [] of
        Inl e \<Rightarrow> Inl e
      | Inr context_parts \<Rightarrow> Inr (str_join ''\<newline>\<newline>'' context_parts))"

definition system_prompt :: string where
  "system_prompt =
     ''You are a helpful AI assistant for customer support that answers questions based on provided context.\<newline>\<newline>IMPORTANT RULES:\<newline>1. For questions about policies, returns, shipping, sizing, or support: Answer ONLY using the provided context and include citations\<newline>2. For general greetings or casual conversation: You can respond naturally and friendly\<newline>3. For questions outside your knowledge base: Politely redirect to relevant policies or suggest contacting support\<newline>4. Always include citations [chunk_id] when using context information\<newline>5. Be concise but comprehensive\<newline>6. Maintain a helpful, professional tone''"

definition user_prompt_of :: "string \<Rightarrow> string \<Rightarrow> string" where
  "user_prompt_of context query =
     ''Context:\<newline>'' @ context @ ''\<newline>\<newline>Question: '' @ query
       @ ''\<newline>\<newline>Please provide an answer based on the context above, including appropriate citations.''"

subsection \<open>Provider dispatch\<close>

definition openai_kwargs :: "settings \<Rightarrow> ChatService \<Rightarrow> string \<Rightarrow> chat_kwargs" where
  "openai_kwargs st self user_prompt =
     \<lparr>chat_model = model self,
      chat_messages = [\<lparr>role = ''system'', content = system_prompt\<rparr>,
                       \<lparr>role = ''user'', content = user_prompt\<rparr>],
      chat_temperature = temperature st,
      chat_max_tokens = 1000\<rparr>"

definition anthropic_kwargs :: "settings \<Rightarrow> ChatService \<Rightarrow> string \<Rightarrow> messages_kwargs" where
  "anthropic_kwargs st self user_prompt =
     \<lparr>msg_model = model self,
      msg_max_tokens = 1000,
      msg_temperature = temperature st,
      msg_system = system_prompt,
      msg_messages = [\<lparr>role = ''user'', content = user_prompt\<rparr>]\<rparr>"

definition fallback_answer :: string where
  "fallback_answer = ''I couldn't generate an answer.''"

definition error_prefix :: string where
  "error_prefix = ''I encountered an error while processing your question: ''"

text \<open>\<^verbatim>\<open>UnboundLocalError\<close>, as CPython 3.11 and later word it: neither branch of the
  \<^verbatim>\<open>if\<close>/\<^verbatim>\<open>elif\<close> has bound \<^verbatim>\<open>answer\<close> when the provider is neither of the two.\<close>

definition UnboundLocalError :: py_exception where
  "UnboundLocalError = PyException ''UnboundLocalError''
     ''cannot access local variable 'answer' where it is not associated with a value''"

text \<open>
  The body of the \<^verbatim>\<open>try\<close> statement: the branch on \<^verbatim>\<open>self.provider\<close> with the vendor call and
  the extraction of \<^verbatim>\<open>answer\<close>, the log record, and the returned expression.
\<close>

definition try_body ::
  "vendor \<Rightarrow> settings \<Rightarrow> ChatService \<Rightarrow> string \<Rightarrow> (py_exception + string) \<times> event list" where
  "try_body v st self user_prompt =
     (let done = LogInfo (''Generated answer using '' @ provider self) in
      if provider self = ''openai'' then
        (let kw = openai_kwargs st self user_prompt;
             call = ChatCompletionsCreate (chat_client self) kw
         in case chat_completions_create v (chat_client self) kw of
              Inl e \<Rightarrow> (Inl e, [call])
            | Inr response \<Rightarrow>
                (case py_first (choices response) of
                   Inl e \<Rightarrow> (Inl e, [call])
                 | Inr c \<Rightarrow> (Inr (py_or (message_content c) fallback_answer), [call, done])))
      else if provider self = ''anthropic'' then
        (let kw = anthropic_kwargs st self user_prompt;
             call = MessagesCreate (chat_client self) kw
         in case messages_create v (chat_client self) kw of
              Inl e \<Rightarrow> (Inl e, [call])
            | Inr response \<Rightarrow>
                (case py_first (content_blocks response) of
                   Inl e \<Rightarrow> (Inl e, [call])
                 | Inr blk \<Rightarrow> (Inr (py_or (Some (block_text blk)) fallback_answer), [call, done])))
      else (Inl UnboundLocalError, [done]))"

text \<open>
  \<^verbatim>\<open>generate_answer\<close>: the context and the two prompts are built before the \<^verbatim>\<open>try\<close>
  statement, so an exception raised there reaches the caller; one raised in the body of
  the \<^verbatim>\<open>try\<close> is logged and turned into the returned string. The module-level \<^verbatim>\<open>settings\<close>
  read by the body is a parameter.
\<close>

definition generate_answer ::
  "vendor \<Rightarrow> settings \<Rightarrow> ChatService \<Rightarrow> string \<Rightarrow> block list
     \<Rightarrow> (py_exception + string) \<times> event list" where
  "generate_answer v st self query context_blocks =
     (case build_context context_blocks of
        Inl e \<Rightarrow> (Inl e, [])
      | Inr context \<Rightarrow>
          (case try_body v st self (user_prompt_of context query) of
             (Inr answer, tr) \<Rightarrow> (Inr answer, tr)
           | (Inl e, tr) \<Rightarrow>
               (Inr (error_prefix @ exc_str e),
                tr @ [LogError (''Failed to generate answer: '' @ exc_str e)])))"

section \<open>The rendering in the words of the specification\<close>

text \<open>
  A value can be formatted when formatting it returns; \<open>formatted\<close> is the string then.
  A block is renderable when the two values its line shows can be formatted, which is so
  for every string, for \<^verbatim>\<open>None\<close> and for every number.
\<close>

definition formattable :: "pyval \<Rightarrow> bool" where
  "formattable v = (case py_format v of Inl _ \<Rightarrow> False | Inr _ \<Rightarrow> True)"

definition formatted :: "pyval \<Rightarrow> string" where
  "formatted v = (case py_format v of Inl _ \<Rightarrow> [] | Inr s \<Rightarrow> s)"

definition renderable :: "block \<Rightarrow> bool" where
  "renderable b = (formattable (dict_get b ''chunk_id'' (PyStr ''unknown''))
                   \<and> formattable (dict_get b ''text'' (PyStr '''')))"

text \<open>
  From the specification, not from the source: a line has the form
  \<^verbatim>\<open>[<chunk_id>] <text>\<close>, with \<^verbatim>\<open>unknown\<close> for a missing identifier and the empty string for
  a missing text.
\<close>

definition spec_line :: "block \<Rightarrow> string" where
  "spec_line b =
     ''['' @ formatted (case b ''chunk_id'' of None \<Rightarrow> PyStr ''unknown'' | Some v \<Rightarrow> v)
       @ ''] '' @ formatted (case b ''text'' of None \<Rightarrow> PyStr '''' | Some v \<Rightarrow> v)"

text \<open>
  From the specification, not from the source: the lines in their order, a blank line
  (two newline characters) before every line but the first; no line gives the empty
  string.
\<close>

fun spec_context :: "string list \<Rightarrow> string" where
  "spec_context [] = []"
| "spec_context (l # ls) = l @ concat (map (\<lambda>x. ''\<newline>\<newline>'' @ x) ls)"

text \<open>The contents of the user-role messages of a request, as a stub client sees them.\<close>

fun user_contents :: "event \<Rightarrow> string list" where
  "user_contents (ChatCompletionsCreate c kw) =
     map content (filter (\<lambda>m. role m = ''user'') (chat_messages kw))"
| "user_contents (MessagesCreate c kw) =
     map content (filter (\<lambda>m. role m = ''user'') (msg_messages kw))"
| "user_contents _ = []"

section \<open>Concrete settings, stub vendors and inputs\<close>

definition example_settings :: "string \<Rightarrow> settings" where
  "example_settings p =
     \<lparr>ai_provider = p, openai_api_key = ''sk-openai'', anthropic_api_key = ''sk-ant'',
      openai_embed_model = ''text-embedding-3-small'', openai_chat_model = ''gpt-4o'',
      anthropic_chat_model = ''claude-3-5-sonnet-20241022'', temperature = 0.1\<rparr>"

text \<open>A vendor that answers every request; an embedding is tagged with the length of its text.\<close>

definition stub_vendor :: vendor where
  "stub_vendor =
     \<lparr>embeddings_create =
        (\<lambda>c kw. Inr (EmbeddingsResponse (map (\<lambda>t. EmbeddingItem [real (length t)]) (emb_input kw)))),
      chat_completions_create = (\<lambda>c kw. Inr (ChatCompletion [Choice (Some ''Yes [a].'')])),
      messages_create = (\<lambda>c kw. Inr (AnthropicMessage [TextBlock ''Yes [b].'']))\<rparr>"

text \<open>A vendor whose every call raises.\<close>

definition failing_vendor :: vendor where
  "failing_vendor =
     \<lparr>embeddings_create = (\<lambda>c kw. Inl (PyException ''APIConnectionError'' ''Connection error.'')),
      chat_completions_create = (\<lambda>c kw. Inl (PyException ''APIConnectionError'' ''Connection error.'')),
      messages_create = (\<lambda>c kw. Inl (PyException ''APIConnectionError'' ''Connection error.''))\<rparr>"

text \<open>A vendor that answers with nothing: no embedding, no content, an empty text.\<close>

definition silent_vendor :: vendor where
  "silent_vendor =
     \<lparr>embeddings_create = (\<lambda>c kw. Inr (EmbeddingsResponse [])),
      chat_completions_create = (\<lambda>c kw. Inr (ChatCompletion [Choice None])),
      messages_create = (\<lambda>c kw. Inr (AnthropicMessage [TextBlock '''']))\<rparr>"

definition openai_service :: ChatService where
  "openai_service = \<lparr>provider = ''openai'', chat_client = OpenAI ''sk-openai'', model = ''gpt-4o''\<rparr>"

definition anthropic_service :: ChatService where
  "anthropic_service =
     \<lparr>provider = ''anthropic'', chat_client = Anthropic ''sk-ant'',
      model = ''claude-3-5-sonnet-20241022''\<rparr>"

definition example_blocks :: "block list" where
  "example_blocks = [[''chunk_id'' \<mapsto> PyStr ''a'', ''text'' \<mapsto> PyStr ''T1''],
                     [''chunk_id'' \<mapsto> PyStr ''b'', ''text'' \<mapsto> PyStr ''T2'']]"

definition example_prompt :: string where
  "example_prompt = ''Context:\<newline>[a] T1\<newline>\<newline>[b] T2\<newline>\<newline>Question: Q\<newline>\<newline>Please provide an answer based on the context above, including appropriate citations.''"

text \<open>
  A block whose identifier cannot be formatted: an instance of a class whose
  \<^verbatim>\<open>__format__\<close> raises \<^verbatim>\<open>RuntimeError("no text")\<close>. (CPython's limit on the conversion of
  very long integers to text makes some \<^verbatim>\<open>int\<close> identifiers such values too.)
\<close>

definition unformattable_block :: block where
  "unformattable_block =
     [''chunk_id'' \<mapsto> PyObject (Inl (PyException ''RuntimeError'' ''no text'')),
      ''text'' \<mapsto> PyStr ''T1'']"

section \<open>Auxiliary facts\<close>

text \<open>The accumulator of the loop only ever grows at its end.\<close>

lemma render_blocks_acc:
  "render_blocks bs acc = (case render_blocks bs [] of Inl e \<Rightarrow> Inl e | Inr ls \<Rightarrow> Inr (acc @ ls))"
proof (induction bs arbitrary: acc)
  case Nil
  show ?case by simp
next
  case (Cons b bs)
  show ?case
  proof (cases "render_block b")
    case (Inl e)
    then show ?thesis by simp
  next
    case (Inr line)
    have "render_blocks bs (acc @ [line])
            = (case render_blocks bs [] of Inl e \<Rightarrow> Inl e | Inr ls \<Rightarrow> Inr ((acc @ [line]) @ ls))"
      by (rule Cons.IH)
    moreover have "render_blocks bs ([] @ [line])
            = (case render_blocks bs [] of Inl e \<Rightarrow> Inl e | Inr ls \<Rightarrow> Inr (([] @ [line]) @ ls))"
      by (rule Cons.IH)
    ultimately show ?thesis using Inr by (simp split: sum.splits)
  qed
qed

lemma render_block_renderable:
  "renderable b \<Longrightarrow> render_block b = Inr (spec_line b)"
  by (auto simp: renderable_def formattable_def formatted_def render_block_def spec_line_def
        dict_get_def Let_def split: sum.splits option.splits)

lemma render_blocks_renderable:
  "\<forall>b\<in>set bs. renderable b \<Longrightarrow> render_blocks bs [] = Inr (map spec_line bs)"
proof (induction bs)
  case Nil
  show ?case by simp
next
  case (Cons b bs)
  then have "render_block b = Inr (spec_line b)" and "render_blocks bs [] = Inr (map spec_line bs)"
    by (simp_all add: render_block_renderable)
  then show ?case
    by (simp add: render_blocks_acc [of bs "[spec_line b]"])
qed

lemma render_blocks_Inl:
  "render_blocks bs acc = Inl e \<Longrightarrow> \<exists>b\<in>set bs. render_block b = Inl e"
  by (induction bs arbitrary: acc) (auto split: sum.splits)

lemma str_join_spec_context: "str_join ''\<newline>\<newline>'' ls = spec_context ls"
  by (induction "''\<newline>\<newline>''" ls rule: str_join.induct) simp_all

lemma build_context_renderable:
  "\<forall>b\<in>set bs. renderable b \<Longrightarrow> build_context bs = Inr (spec_context (map spec_line bs))"
  by (simp add: build_context_def render_blocks_renderable str_join_spec_context)

lemma show_nat_examples:
  "show_nat 0 = ''0'' \<and> show_nat 7 = ''7'' \<and> show_nat 12 = ''12'' \<and> show_nat 1536 = ''1536''"
  by (simp add: show_nat.simps digit_char_def)

text \<open>\<^verbatim>\<open>generate_answer\<close> once the context is built, and the body of its \<^verbatim>\<open>try\<close> statement
  under each of the two providers.\<close>

lemma generate_answer_built:
  "build_context bs = Inr ctx \<Longrightarrow>
   generate_answer v st self q bs =
     (case try_body v st self (user_prompt_of ctx q) of
        (Inr answer, tr) \<Rightarrow> (Inr answer, tr)
      | (Inl e, tr) \<Rightarrow>
          (Inr (error_prefix @ exc_str e),
           tr @ [LogError (''Failed to generate answer: '' @ exc_str e)]))"
  by (simp add: generate_answer_def)

lemma try_body_openai:
  "provider self = ''openai'' \<Longrightarrow>
   try_body v st self up =
     (case chat_completions_create v (chat_client self) (openai_kwargs st self up) of
        Inl e \<Rightarrow> (Inl e, [ChatCompletionsCreate (chat_client self) (openai_kwargs st self up)])
      | Inr response \<Rightarrow>
          (case choices response of
             [] \<Rightarrow> (Inl IndexError, [ChatCompletionsCreate (chat_client self) (openai_kwargs st self up)])
           | c # _ \<Rightarrow>
               (Inr (py_or (message_content c) fallback_answer),
                [ChatCompletionsCreate (chat_client self) (openai_kwargs st self up),
                 LogInfo ''Generated answer using openai''])))"
  by (simp add: try_body_def py_first_def Let_def split: sum.splits list.splits)

lemma try_body_anthropic:
  "provider self = ''anthropic'' \<Longrightarrow>
   try_body v st self up =
     (case messages_create v (chat_client self) (anthropic_kwargs st self up) of
        Inl e \<Rightarrow> (Inl e, [MessagesCreate (chat_client self) (anthropic_kwargs st self up)])
      | Inr response \<Rightarrow>
          (case content_blocks response of
             [] \<Rightarrow> (Inl IndexError, [MessagesCreate (chat_client self) (anthropic_kwargs st self up)])
           | blk # _ \<Rightarrow>
               (Inr (py_or (Some (block_text blk)) fallback_answer),
                [MessagesCreate (chat_client self) (anthropic_kwargs st self up),
                 LogInfo ''Generated answer using anthropic''])))"
  by (simp add: try_body_def py_first_def Let_def split: sum.splits list.splits)

text \<open>A response without a first choice, or without a first content block, is not an
  empty answer: indexing it raises inside the \<^verbatim>\<open>try\<close> statement.\<close>

lemma no_choice_is_an_error:
  assumes "build_context bs = Inr ctx"
  shows "(provider self = ''openai''
            \<and> chat_completions_create v (chat_client self)
                 (openai_kwargs st self (user_prompt_of ctx q)) = Inr (ChatCompletion []) \<longrightarrow>
          fst (generate_answer v st self q bs) = Inr (error_prefix @ ''list index out of range''))
       \<and> (provider self = ''anthropic''
            \<and> messages_create v (chat_client self)
                 (anthropic_kwargs st self (user_prompt_of ctx q)) = Inr (AnthropicMessage []) \<longrightarrow>
          fst (generate_answer v st self q bs) = Inr (error_prefix @ ''list index out of range''))"
  by (auto simp: generate_answer_built [OF assms] try_body_openai try_body_anthropic IndexError_def)

text \<open>The running example.\<close>

lemma example_context: "build_context example_blocks = Inr ''[a] T1\<newline>\<newline>[b] T2''"
  by (simp add: build_context_def example_blocks_def render_block_def dict_get_def)

lemma example_user_prompt: "user_prompt_of ''[a] T1\<newline>\<newline>[b] T2'' ''Q'' = example_prompt"
  by (simp add: user_prompt_of_def example_prompt_def)

lemma unformattable_context:
  "build_context [unformattable_block] = Inl (PyException ''RuntimeError'' ''no text'')"
  by (simp add: build_context_def render_block_def dict_get_def unformattable_block_def)

lemma example_services:
  "provider openai_service = ''openai''"
  "chat_client openai_service = OpenAI ''sk-openai''"
  "model openai_service = ''gpt-4o''"
  "provider anthropic_service = ''anthropic''"
  "chat_client anthropic_service = Anthropic ''sk-ant''"
  "model anthropic_service = ''claude-3-5-sonnet-20241022''"
  by (simp_all add: openai_service_def anthropic_service_def)

section \<open>Answer synthesis: failures\<close>

text \<open>
  C1, as amended. \<^verbatim>\<open>generate_answer\<close> builds the context and the prompts before its \<^verbatim>\<open>try\<close>
  statement. An exception raised while the context is built reaches the caller, and
  nothing has been sent or logged by then. Once the context is built the call always
  returns a string: an exception raised in the body of the \<^verbatim>\<open>try\<close> statement, by the vendor
  call through either client in particular, is logged and the returned string is the
  prefix \<^verbatim>\<open>I encountered an error while processing your question: \<close> followed by the
  text of the exception.
\<close>

theorem try_failures_become_answers:
  "(build_context bs = Inl e \<longrightarrow> generate_answer v st self q bs = (Inl e, []))
   \<and> (build_context bs = Inr ctx \<longrightarrow>
        (\<exists>s. fst (generate_answer v st self q bs) = Inr s)
        \<and> (fst (try_body v st self (user_prompt_of ctx q)) = Inl e \<longrightarrow>
             fst (generate_answer v st self q bs)
               = Inr (''I encountered an error while processing your question: '' @ exc_str e))
        \<and> (provider self = ''openai''
             \<and> chat_completions_create v (chat_client self)
                  (openai_kwargs st self (user_prompt_of ctx q)) = Inl e \<longrightarrow>
             generate_answer v st self q bs
               = (Inr (''I encountered an error while processing your question: '' @ exc_str e),
                  [ChatCompletionsCreate (chat_client self) (openai_kwargs st self (user_prompt_of ctx q)),
                   LogError (''Failed to generate answer: '' @ exc_str e)]))
        \<and> (provider self = ''anthropic''
             \<and> messages_create v (chat_client self)
                  (anthropic_kwargs st self (user_prompt_of ctx q)) = Inl e \<longrightarrow>
             generate_answer v st self q bs
               = (Inr (''I encountered an error while processing your question: '' @ exc_str e),
                  [MessagesCreate (chat_client self) (anthropic_kwargs st self (user_prompt_of ctx q)),
                   LogError (''Failed to generate answer: '' @ exc_str e)])))"
proof -
  have escapes: "generate_answer v st self q bs = (Inl e, [])" if "build_context bs = Inl e"
    using that by (simp add: generate_answer_def)
  have returns: "\<exists>s. fst (generate_answer v st self q bs) = Inr s" if "build_context bs = Inr ctx"
    by (cases "try_body v st self (user_prompt_of ctx q)")
       (auto simp: generate_answer_built [OF that] split: sum.splits)
  have caught: "fst (generate_answer v st self q bs) = Inr (error_prefix @ exc_str e)"
    if "build_context bs = Inr ctx" and "fst (try_body v st self (user_prompt_of ctx q)) = Inl e"
    using that(2)
    by (cases "try_body v st self (user_prompt_of ctx q)")
       (auto simp: generate_answer_built [OF that(1)] split: sum.splits)
  have openai: "generate_answer v st self q bs
               = (Inr (error_prefix @ exc_str e),
                  [ChatCompletionsCreate (chat_client self) (openai_kwargs st self (user_prompt_of ctx q)),
                   LogError (''Failed to generate answer: '' @ exc_str e)])"
    if "build_context bs = Inr ctx" and "provider self = ''openai''"
      and "chat_completions_create v (chat_client self)
             (openai_kwargs st self (user_prompt_of ctx q)) = Inl e"
    using that(3) by (simp add: generate_answer_built [OF that(1)] try_body_openai [OF that(2)])
  have anthropic: "generate_answer v st self q bs
               = (Inr (error_prefix @ exc_str e),
                  [MessagesCreate (chat_client self) (anthropic_kwargs st self (user_prompt_of ctx q)),
                   LogError (''Failed to generate answer: '' @ exc_str e)])"
    if "build_context bs = Inr ctx" and "provider self = ''anthropic''"
      and "messages_create v (chat_client self)
             (anthropic_kwargs st self (user_prompt_of ctx q)) = Inl e"
    using that(3) by (simp add: generate_answer_built [OF that(1)] try_body_anthropic [OF that(2)])
  show ?thesis
    using escapes returns caught openai anthropic unfolding error_prefix_def by blast
qed

theorem try_failures_become_answers_witness:
  "build_context [unformattable_block] = Inl (PyException ''RuntimeError'' ''no text'')
   \<and> generate_answer failing_vendor (example_settings ''openai'') openai_service ''Q''
        [unformattable_block]
       = (Inl (PyException ''RuntimeError'' ''no text''), [])
   \<and> build_context example_blocks = Inr ''[a] T1\<newline>\<newline>[b] T2''
   \<and> generate_answer failing_vendor (example_settings ''openai'') openai_service ''Q'' example_blocks
       = (Inr ''I encountered an error while processing your question: Connection error.'',
          [ChatCompletionsCreate (OpenAI ''sk-openai'')
             (openai_kwargs (example_settings ''openai'') openai_service example_prompt),
           LogError ''Failed to generate answer: Connection error.''])
   \<and> generate_answer failing_vendor (example_settings ''anthropic'') anthropic_service ''Q'' example_blocks
       = (Inr ''I encountered an error while processing your question: Connection error.'',
          [MessagesCreate (Anthropic ''sk-ant'')
             (anthropic_kwargs (example_settings ''anthropic'') anthropic_service example_prompt),
           LogError ''Failed to generate answer: Connection error.''])"
proof -
  have f: "chat_completions_create failing_vendor c kw
             = Inl (PyException ''APIConnectionError'' ''Connection error.'')"
    "messages_create failing_vendor c kw'
       = Inl (PyException ''APIConnectionError'' ''Connection error.'')"
    for c kw kw'
    by (simp_all add: failing_vendor_def)
  show ?thesis
    using unformattable_context example_context
      try_failures_become_answers [of "[unformattable_block]"
        "PyException ''RuntimeError'' ''no text''" failing_vendor
        "example_settings ''openai''" openai_service "''Q''"]
      try_failures_become_answers [of example_blocks
        "PyException ''APIConnectionError'' ''Connection error.''" failing_vendor
        "example_settings ''openai''" openai_service "''Q''" "''[a] T1\<newline>\<newline>[b] T2''"]
      try_failures_become_answers [of example_blocks
        "PyException ''APIConnectionError'' ''Connection error.''" failing_vendor
        "example_settings ''anthropic''" anthropic_service "''Q''" "''[a] T1\<newline>\<newline>[b] T2''"]
    by (simp add: example_services f example_user_prompt)
qed

text \<open>
  C1, as stated, fails: the claim has every exception of prompt construction caught and
  none ever reach the caller. A context block whose identifier cannot be formatted makes
  the f-string of the loop raise before the \<^verbatim>\<open>try\<close> statement is entered, and the caller
  gets the exception; the vendor, which would have answered, is never called.
\<close>

theorem prompt_construction_failure_escapes:
  "generate_answer stub_vendor (example_settings ''openai'') openai_service ''Q'' [unformattable_block]
     = (Inl (PyException ''RuntimeError'' ''no text''), [])"
  by (simp add: generate_answer_def build_context_def render_block_def dict_get_def
        unformattable_block_def)

section \<open>Answer synthesis: the rendered context and the user prompt\<close>

text \<open>
  C2. For every sequence of context blocks whose identifiers and texts can be formatted,
  the context is the lines \<^verbatim>\<open>[<chunk_id>] <text>\<close> of the blocks, one per block and in the
  order given, with exactly two newline characters between consecutive lines: nothing is
  reordered, dropped or cut. No block gives the empty context. The user prompt sent to
  the vendor, under either provider, is \<^verbatim>\<open>Context:\<close>, a newline, the context, a blank line,
  \<^verbatim>\<open>Question: <query>\<close>, a blank line and the closing instruction.
\<close>

theorem context_rendering:
  assumes "\<forall>b\<in>set bs. renderable b"
  shows "build_context bs = Inr (spec_context (map spec_line bs))
         \<and> (bs = [] \<longrightarrow> build_context bs = Inr [])
         \<and> (provider self = ''openai'' \<or> provider self = ''anthropic'' \<longrightarrow>
              concat (map user_contents (snd (generate_answer v st self q bs)))
                = [''Context:\<newline>'' @ spec_context (map spec_line bs)
                     @ ''\<newline>\<newline>Question: '' @ q
                     @ ''\<newline>\<newline>Please provide an answer based on the context above, including appropriate citations.''])"
proof -
  let ?ctx = "spec_context (map spec_line bs)"
  have ctx: "build_context bs = Inr ?ctx"
    using assms by (rule build_context_renderable)
  have empty: "bs = [] \<longrightarrow> build_context bs = Inr []"
    by (simp add: build_context_def)
  have sent: "concat (map user_contents (snd (generate_answer v st self q bs))) = [user_prompt_of ?ctx q]"
    if "provider self = ''openai'' \<or> provider self = ''anthropic''"
    using that
  proof
    assume "provider self = ''openai''"
    then show ?thesis
      by (simp add: generate_answer_built [OF ctx] try_body_openai openai_kwargs_def
            split: sum.splits list.splits)
  next
    assume "provider self = ''anthropic''"
    then show ?thesis
      by (simp add: generate_answer_built [OF ctx] try_body_anthropic anthropic_kwargs_def
            split: sum.splits list.splits)
  qed
  show ?thesis
    using ctx empty sent by (simp add: user_prompt_of_def)
qed

theorem context_rendering_witness:
  "list_all renderable example_blocks
   \<and> build_context example_blocks = Inr ''[a] T1\<newline>\<newline>[b] T2''
   \<and> concat (map user_contents
        (snd (generate_answer stub_vendor (example_settings ''openai'') openai_service ''Q'' example_blocks)))
       = [''Context:\<newline>[a] T1\<newline>\<newline>[b] T2\<newline>\<newline>Question: Q\<newline>\<newline>Please provide an answer based on the context above, including appropriate citations.'']"
proof -
  have r: "\<forall>b\<in>set example_blocks. renderable b"
    by (simp add: example_blocks_def renderable_def formattable_def dict_get_def)
  have s: "spec_context (map spec_line example_blocks) = ''[a] T1\<newline>\<newline>[b] T2''"
    by (simp add: example_blocks_def spec_line_def formatted_def)
  show ?thesis
    using r context_rendering [OF r, of openai_service stub_vendor "example_settings ''openai''" "''Q''"]
    by (simp add: s example_services list_all_iff)
qed

section \<open>Embeddings\<close>

text \<open>
  C3. When the vendor answers the one batched request with a response that holds as many
  items as there were texts, \<^verbatim>\<open>embed_texts\<close> returns a list of that length whose element at
  each index is the embedding of the response item at that index; for no text it returns
  the empty list.
\<close>

theorem embed_texts_preserves_order:
  assumes "embeddings_create v (openai_client self)
             \<lparr>emb_model = embed_model self, emb_input = texts\<rparr> = Inr response"
      and "length (data response) = length texts"
  shows "\<exists>out. fst (embed_texts v self texts) = Inr out
           \<and> length out = length texts
           \<and> (\<forall>i<length texts. out ! i = embedding (data response ! i))
           \<and> (texts = [] \<longrightarrow> out = [])"
proof -
  have "fst (embed_texts v self texts) = Inr (map embedding (data response))"
    using assms(1) by (simp add: embed_texts_def Let_def)
  moreover have "length (map embedding (data response)) = length texts"
    using assms(2) by simp
  moreover have "\<forall>i<length texts. map embedding (data response) ! i = embedding (data response ! i)"
    using assms(2) by simp
  moreover have "texts = [] \<longrightarrow> map embedding (data response) = []"
    using assms(2) by auto
  ultimately show ?thesis by blast
qed

theorem embed_texts_preserves_order_witness:
  "embeddings_create stub_vendor (OpenAI ''sk-openai'')
      \<lparr>emb_model = ''text-embedding-3-small'', emb_input = [''ab'', ''c'']\<rparr>
     = Inr (EmbeddingsResponse [EmbeddingItem [2], EmbeddingItem [1]])
   \<and> length (data (EmbeddingsResponse [EmbeddingItem [2], EmbeddingItem [1]])) = length [''ab'', ''c'']
   \<and> (\<exists>out. fst (embed_texts stub_vendor (EmbeddingService_init (example_settings ''openai''))
                     [''ab'', ''c'']) = Inr out
          \<and> length out = 2 \<and> out ! 0 = [2] \<and> out ! 1 = [1])"
  using embed_texts_preserves_order [of stub_vendor "EmbeddingService_init (example_settings ''openai'')"
      "[''ab'', ''c'']" "EmbeddingsResponse [EmbeddingItem [2], EmbeddingItem [1]]"]
  by (auto simp: stub_vendor_def EmbeddingService_init_def example_settings_def)

section \<open>Construction of the chat service\<close>

text \<open>
  C4. When the configured provider is neither \<^verbatim>\<open>openai\<close> nor \<^verbatim>\<open>anthropic\<close>, the constructor
  of \<^verbatim>\<open>ChatService\<close> raises a \<^verbatim>\<open>ValueError\<close> whose message ends with the configured value;
  no service is built with another provider, and nothing has been sent or logged.
\<close>

theorem unsupported_provider_rejected:
  "ai_provider st \<noteq> ''openai'' \<Longrightarrow> ai_provider st \<noteq> ''anthropic'' \<Longrightarrow>
   ChatService_init st
     = (Inl (PyException ''ValueError'' (''Unsupported AI provider: '' @ ai_provider st)), [])"
  by (simp add: ChatService_init_def Let_def)

theorem unsupported_provider_rejected_witness:
  "ai_provider (example_settings ''cohere'') \<noteq> ''openai''
   \<and> ai_provider (example_settings ''cohere'') \<noteq> ''anthropic''
   \<and> ChatService_init (example_settings ''cohere'')
       = (Inl (PyException ''ValueError'' ''Unsupported AI provider: cohere''), [])"
  using unsupported_provider_rejected [of "example_settings ''cohere''"]
  by (simp add: example_settings_def)

section \<open>Answer synthesis: the empty answer\<close>

text \<open>
  C5. When the vendor call succeeds and the answer read from its response is absent or
  empty (under \<^verbatim>\<open>openai\<close> the content of the first choice is \<^verbatim>\<open>None\<close> or the empty string,
  under \<^verbatim>\<open>anthropic\<close> the text of the first content block is the empty string),
  \<^verbatim>\<open>generate_answer\<close> returns exactly \<^verbatim>\<open>I couldn't generate an answer.\<close>
\<close>

theorem empty_answer_fallback:
  assumes "build_context bs = Inr ctx"
  shows "(provider self = ''openai''
            \<and> chat_completions_create v (chat_client self)
                 (openai_kwargs st self (user_prompt_of ctx q)) = Inr (ChatCompletion (Choice a # rest))
            \<and> (a = None \<or> a = Some []) \<longrightarrow>
          fst (generate_answer v st self q bs) = Inr ''I couldn't generate an answer.'')
       \<and> (provider self = ''anthropic''
            \<and> messages_create v (chat_client self)
                 (anthropic_kwargs st self (user_prompt_of ctx q))
                = Inr (AnthropicMessage (TextBlock [] # rest')) \<longrightarrow>
          fst (generate_answer v st self q bs) = Inr ''I couldn't generate an answer.'')"
  by (auto simp: generate_answer_built [OF assms] try_body_openai try_body_anthropic
        fallback_answer_def)

theorem empty_answer_fallback_witness:
  "build_context example_blocks = Inr ''[a] T1\<newline>\<newline>[b] T2''
   \<and> chat_completions_create silent_vendor (OpenAI ''sk-openai'')
        (openai_kwargs (example_settings ''openai'') openai_service example_prompt)
       = Inr (ChatCompletion [Choice None])
   \<and> messages_create silent_vendor (Anthropic ''sk-ant'')
        (anthropic_kwargs (example_settings ''anthropic'') anthropic_service example_prompt)
       = Inr (AnthropicMessage [TextBlock []])
   \<and> fst (generate_answer silent_vendor (example_settings ''openai'') openai_service ''Q'' example_blocks)
       = Inr ''I couldn't generate an answer.''
   \<and> fst (generate_answer silent_vendor (example_settings ''anthropic'') anthropic_service ''Q''
             example_blocks)
       = Inr ''I couldn't generate an answer.''"
proof -
  have s: "chat_completions_create silent_vendor c kw = Inr (ChatCompletion [Choice None])"
    "messages_create silent_vendor c kw' = Inr (AnthropicMessage [TextBlock []])"
    for c kw kw'
    by (simp_all add: silent_vendor_def)
  show ?thesis
    using empty_answer_fallback [OF example_context, of openai_service silent_vendor
            "example_settings ''openai''" "''Q''" None "[]"]
          empty_answer_fallback [OF example_context, of anthropic_service silent_vendor
            "example_settings ''anthropic''" "''Q''" _ _ "[]"]
    by (simp add: example_services s example_context example_user_prompt)
qed

section \<open>Answer synthesis: missing fields\<close>

text \<open>
  C6. A block without the key \<^verbatim>\<open>chunk_id\<close> is rendered with \<^verbatim>\<open>unknown\<close> between the
  brackets, and a block without the key \<^verbatim>\<open>text\<close> with nothing after the bracket and the
  space; a block with neither key is rendered as \<^verbatim>\<open>[unknown] \<close>, so a missing key raises
  nothing.
\<close>

theorem missing_fields_default:
  "(b ''chunk_id'' = None \<and> b ''text'' = Some tv \<and> py_format tv = Inr t
      \<longrightarrow> render_block b = Inr (''[unknown] '' @ t))
   \<and> (b ''text'' = None \<and> b ''chunk_id'' = Some cv \<and> py_format cv = Inr c
      \<longrightarrow> render_block b = Inr (''['' @ c @ ''] ''))
   \<and> (b ''chunk_id'' = None \<and> b ''text'' = None \<longrightarrow> render_block b = Inr ''[unknown] '')"
  by (simp add: render_block_def dict_get_def)

theorem missing_fields_default_witness:
  "render_block [''text'' \<mapsto> PyStr ''T1''] = Inr ''[unknown] T1''
   \<and> render_block [''chunk_id'' \<mapsto> PyStr ''a''] = Inr ''[a] ''
   \<and> render_block Map.empty = Inr ''[unknown] ''"
  using missing_fields_default [of "[''text'' \<mapsto> PyStr ''T1'']" "PyStr ''T1''" "''T1''"]
        missing_fields_default [of "[''chunk_id'' \<mapsto> PyStr ''a'']" _ _ "PyStr ''a''" "''a''"]
        missing_fields_default [of Map.empty]
  by simp

section \<open>Embedding one query\<close>

text \<open>
  C7. \<^verbatim>\<open>embed_query\<close> on a string does what \<^verbatim>\<open>embed_texts\<close> does on the list of that one
  string, with the same effects: an exception of \<^verbatim>\<open>embed_texts\<close> is the exception of
  \<^verbatim>\<open>embed_query\<close>, and a returned list gives its element at index 0 (an \<^verbatim>\<open>IndexError\<close> when
  the list is empty).
\<close>

theorem embed_query_is_first_of_embed_texts:
  "snd (embed_query v self x) = snd (embed_texts v self [x])
   \<and> (fst (embed_texts v self [x]) = Inl e \<longrightarrow> fst (embed_query v self x) = Inl e)
   \<and> (fst (embed_texts v self [x]) = Inr vs \<longrightarrow> fst (embed_query v self x) = py_first vs)
   \<and> (fst (embed_texts v self [x]) = Inr (y # ys) \<longrightarrow> fst (embed_query v self x) = Inr y)"
  by (cases "embed_texts v self [x]") (auto simp: embed_query_def py_first_def split: sum.splits)

theorem embed_query_is_first_of_embed_texts_witness:
  "fst (embed_texts stub_vendor (EmbeddingService_init (example_settings ''openai'')) [''ab''])
     = Inr [[2]]
   \<and> fst (embed_query stub_vendor (EmbeddingService_init (example_settings ''openai'')) ''ab'')
     = Inr [2]
   \<and> fst (embed_texts failing_vendor (EmbeddingService_init (example_settings ''openai'')) [''ab''])
     = Inl (PyException ''APIConnectionError'' ''Connection error.'')
   \<and> fst (embed_query failing_vendor (EmbeddingService_init (example_settings ''openai'')) ''ab'')
     = Inl (PyException ''APIConnectionError'' ''Connection error.'')
   \<and> fst (embed_texts silent_vendor (EmbeddingService_init (example_settings ''openai'')) [''ab''])
     = Inr []
   \<and> fst (embed_query silent_vendor (EmbeddingService_init (example_settings ''openai'')) ''ab'')
     = Inl (PyException ''IndexError'' ''list index out of range'')"
proof -
  let ?self = "EmbeddingService_init (example_settings ''openai'')"
  have ok: "fst (embed_texts stub_vendor ?self [''ab'']) = Inr [[2]]"
    by (simp add: embed_texts_def stub_vendor_def)
  have bad: "fst (embed_texts failing_vendor ?self [''ab''])
               = Inl (PyException ''APIConnectionError'' ''Connection error.'')"
    by (simp add: embed_texts_def failing_vendor_def)
  have none: "fst (embed_texts silent_vendor ?self [''ab'']) = Inr []"
    by (simp add: embed_texts_def silent_vendor_def)
  show ?thesis
    using ok bad none
      embed_query_is_first_of_embed_texts [of stub_vendor ?self "''ab''" _ _ "[2]" "[]"]
      embed_query_is_first_of_embed_texts [of failing_vendor ?self "''ab''"
        "PyException ''APIConnectionError'' ''Connection error.''"]
      embed_query_is_first_of_embed_texts [of silent_vendor ?self "''ab''" _ "[]"]
    by (simp add: py_first_def IndexError_def)
qed

section \<open>Embeddings: failures\<close>

text \<open>
  C8. When the embedding request raises, \<^verbatim>\<open>embed_texts\<close> raises that very exception. Its
  effects are the one request and then the error record: no second request, and no
  vector is returned in place of the failure.
\<close>

theorem embed_texts_reraises:
  "embeddings_create v (openai_client self) \<lparr>emb_model = embed_model self, emb_input = texts\<rparr> = Inl e
   \<Longrightarrow> embed_texts v self texts
         = (Inl e,
            [EmbeddingsCreate (openai_client self) \<lparr>emb_model = embed_model self, emb_input = texts\<rparr>,
             LogError (''Failed to generate embeddings: '' @ exc_str e)])"
  by (simp add: embed_texts_def Let_def)

theorem embed_texts_reraises_witness:
  "embeddings_create failing_vendor (OpenAI ''sk-openai'')
      \<lparr>emb_model = ''text-embedding-3-small'', emb_input = [''ab'', ''c'']\<rparr>
     = Inl (PyException ''APIConnectionError'' ''Connection error.'')
   \<and> embed_texts failing_vendor (EmbeddingService_init (example_settings ''anthropic'')) [''ab'', ''c'']
       = (Inl (PyException ''APIConnectionError'' ''Connection error.''),
          [EmbeddingsCreate (OpenAI ''sk-openai'')
             \<lparr>emb_model = ''text-embedding-3-small'', emb_input = [''ab'', ''c'']\<rparr>,
           LogError ''Failed to generate embeddings: Connection error.''])"
  using embed_texts_reraises [of failing_vendor "EmbeddingService_init (example_settings ''anthropic'')"
      "[''ab'', ''c'']" "PyException ''APIConnectionError'' ''Connection error.''"]
  by (simp add: failing_vendor_def EmbeddingService_init_def example_settings_def)

section \<open>Answer synthesis: the request sent to each vendor\<close>

text \<open>
  C9. Once the context is built, \<^verbatim>\<open>generate_answer\<close> sends exactly one request, chosen by
  the provider of the service. Under \<^verbatim>\<open>openai\<close> it is a chat completion with the model of
  the service, a system-role message holding the system prompt followed by a user-role
  message holding the user prompt, the configured temperature and \<^verbatim>\<open>max_tokens\<close> 1000, and
  a non-empty content of the first choice is the answer. Under \<^verbatim>\<open>anthropic\<close> it is a message
  request with the model of the service, \<^verbatim>\<open>max_tokens\<close> 1000, the configured temperature,
  the system prompt as the \<^verbatim>\<open>system\<close> argument and the user prompt as the only message, and
  a non-empty text of the first content block is the answer. A service that the
  constructor returned holds the client and the chat model of its provider.
\<close>

theorem provider_dispatch:
  assumes "build_context bs = Inr ctx"
  shows "(provider self = ''openai'' \<longrightarrow>
            filter is_vendor_call (snd (generate_answer v st self q bs))
              = [ChatCompletionsCreate (chat_client self)
                   \<lparr>chat_model = model self,
                    chat_messages = [\<lparr>role = ''system'', content = system_prompt\<rparr>,
                                     \<lparr>role = ''user'', content = user_prompt_of ctx q\<rparr>],
                    chat_temperature = temperature st,
                    chat_max_tokens = 1000\<rparr>]
            \<and> (chat_completions_create v (chat_client self)
                   \<lparr>chat_model = model self,
                    chat_messages = [\<lparr>role = ''system'', content = system_prompt\<rparr>,
                                     \<lparr>role = ''user'', content = user_prompt_of ctx q\<rparr>],
                    chat_temperature = temperature st,
                    chat_max_tokens = 1000\<rparr>
                  = Inr (ChatCompletion (Choice (Some (c # cs)) # rest)) \<longrightarrow>
                fst (generate_answer v st self q bs) = Inr (c # cs)))
       \<and> (provider self = ''anthropic'' \<longrightarrow>
            filter is_vendor_call (snd (generate_answer v st self q bs))
              = [MessagesCreate (chat_client self)
                   \<lparr>msg_model = model self,
                    msg_max_tokens = 1000,
                    msg_temperature = temperature st,
                    msg_system = system_prompt,
                    msg_messages = [\<lparr>role = ''user'', content = user_prompt_of ctx q\<rparr>]\<rparr>]
            \<and> (messages_create v (chat_client self)
                   \<lparr>msg_model = model self,
                    msg_max_tokens = 1000,
                    msg_temperature = temperature st,
                    msg_system = system_prompt,
                    msg_messages = [\<lparr>role = ''user'', content = user_prompt_of ctx q\<rparr>]\<rparr>
                  = Inr (AnthropicMessage (TextBlock (c # cs) # rest')) \<longrightarrow>
                fst (generate_answer v st self q bs) = Inr (c # cs)))
       \<and> (fst (ChatService_init st) = Inr self \<longrightarrow>
            (provider self = ''openai'' \<and> chat_client self = OpenAI (openai_api_key st)
               \<and> model self = openai_chat_model st)
            \<or> (provider self = ''anthropic'' \<and> chat_client self = Anthropic (anthropic_api_key st)
               \<and> model self = anthropic_chat_model st))"
proof -
  have openai_call: "filter is_vendor_call (snd (generate_answer v st self q bs))
      = [ChatCompletionsCreate (chat_client self) (openai_kwargs st self (user_prompt_of ctx q))]"
    if "provider self = ''openai''"
    by (simp add: generate_answer_built [OF assms] try_body_openai [OF that]
          split: sum.splits list.splits)
  have openai_answer: "fst (generate_answer v st self q bs) = Inr (c # cs)"
    if "provider self = ''openai''"
      and "chat_completions_create v (chat_client self) (openai_kwargs st self (user_prompt_of ctx q))
             = Inr (ChatCompletion (Choice (Some (c # cs)) # rest))"
    using that(2) by (simp add: generate_answer_built [OF assms] try_body_openai [OF that(1)])
  have anthropic_call: "filter is_vendor_call (snd (generate_answer v st self q bs))
      = [MessagesCreate (chat_client self) (anthropic_kwargs st self (user_prompt_of ctx q))]"
    if "provider self = ''anthropic''"
    by (simp add: generate_answer_built [OF assms] try_body_anthropic [OF that]
          split: sum.splits list.splits)
  have anthropic_answer: "fst (generate_answer v st self q bs) = Inr (c # cs)"
    if "provider self = ''anthropic''"
      and "messages_create v (chat_client self) (anthropic_kwargs st self (user_prompt_of ctx q))
             = Inr (AnthropicMessage (TextBlock (c # cs) # rest'))"
    using that(2) by (simp add: generate_answer_built [OF assms] try_body_anthropic [OF that(1)])
  have bound: "(provider self = ''openai'' \<and> chat_client self = OpenAI (openai_api_key st)
               \<and> model self = openai_chat_model st)
            \<or> (provider self = ''anthropic'' \<and> chat_client self = Anthropic (anthropic_api_key st)
               \<and> model self = anthropic_chat_model st)"
    if "fst (ChatService_init st) = Inr self"
    using that by (auto simp: ChatService_init_def Let_def split: if_splits)
  show ?thesis
    using openai_call openai_answer anthropic_call anthropic_answer bound
    unfolding openai_kwargs_def anthropic_kwargs_def by blast
qed

theorem provider_dispatch_witness:
  "build_context example_blocks = Inr ''[a] T1\<newline>\<newline>[b] T2''
   \<and> fst (ChatService_init (example_settings ''openai'')) = Inr openai_service
   \<and> fst (ChatService_init (example_settings ''anthropic'')) = Inr anthropic_service
   \<and> filter is_vendor_call
        (snd (generate_answer stub_vendor (example_settings ''openai'') openai_service ''Q''
                example_blocks))
       = [ChatCompletionsCreate (OpenAI ''sk-openai'')
            \<lparr>chat_model = ''gpt-4o'',
             chat_messages = [\<lparr>role = ''system'', content = system_prompt\<rparr>,
                              \<lparr>role = ''user'', content = example_prompt\<rparr>],
             chat_temperature = 0.1, chat_max_tokens = 1000\<rparr>]
   \<and> fst (generate_answer stub_vendor (example_settings ''openai'') openai_service ''Q''
             example_blocks) = Inr ''Yes [a].''
   \<and> filter is_vendor_call
        (snd (generate_answer stub_vendor (example_settings ''anthropic'') anthropic_service ''Q''
                example_blocks))
       = [MessagesCreate (Anthropic ''sk-ant'')
            \<lparr>msg_model = ''claude-3-5-sonnet-20241022'', msg_max_tokens = 1000,
             msg_temperature = 0.1, msg_system = system_prompt,
             msg_messages = [\<lparr>role = ''user'', content = example_prompt\<rparr>]\<rparr>]
   \<and> fst (generate_answer stub_vendor (example_settings ''anthropic'') anthropic_service ''Q''
             example_blocks) = Inr ''Yes [b].''"
proof -
  have s: "chat_completions_create stub_vendor k kw = Inr (ChatCompletion [Choice (Some ''Yes [a].'')])"
    "messages_create stub_vendor k kw' = Inr (AnthropicMessage [TextBlock ''Yes [b].''])"
    for k kw kw'
    by (simp_all add: stub_vendor_def)
  have t: "temperature (example_settings p) = 0.1" for p
    by (simp add: example_settings_def)
  have i: "fst (ChatService_init (example_settings ''openai'')) = Inr openai_service"
    "fst (ChatService_init (example_settings ''anthropic'')) = Inr anthropic_service"
    by (simp_all add: ChatService_init_def Let_def example_settings_def openai_service_def
          anthropic_service_def)
  show ?thesis
    using example_context i
      provider_dispatch [OF example_context, of openai_service stub_vendor
        "example_settings ''openai''" "''Q''" "CHR ''Y''" "''es [a].''" "[]"]
      provider_dispatch [OF example_context, of anthropic_service stub_vendor
        "example_settings ''anthropic''" "''Q''" "CHR ''Y''" "''es [b].''" _ "[]"]
    by (simp add: example_services s t example_user_prompt)
qed

section \<open>The embedding path and the provider setting\<close>

text \<open>
  C10. Whatever the settings, the constructor of \<^verbatim>\<open>EmbeddingService\<close> binds an OpenAI
  client made from the OpenAI key, and the OpenAI embedding model. Changing
  \<^verbatim>\<open>ai_provider\<close> to any value changes neither the service nor the outcome and effects of
  \<^verbatim>\<open>embed_texts\<close>, whose one request goes through that client with that model.
\<close>

theorem embedding_path_ignores_ai_provider:
  "EmbeddingService_init st
     = \<lparr>openai_client = OpenAI (openai_api_key st), embed_model = openai_embed_model st\<rparr>
   \<and> EmbeddingService_init (st\<lparr>ai_provider := p\<rparr>) = EmbeddingService_init st
   \<and> filter is_vendor_call (snd (embed_texts v (EmbeddingService_init st) texts))
       = [EmbeddingsCreate (OpenAI (openai_api_key st))
            \<lparr>emb_model = openai_embed_model st, emb_input = texts\<rparr>]
   \<and> embed_texts v (EmbeddingService_init (st\<lparr>ai_provider := p\<rparr>)) texts
       = embed_texts v (EmbeddingService_init st) texts"
  by (simp add: EmbeddingService_init_def embed_texts_def Let_def split: sum.splits)

end
